theory Spec2Isabelle
  imports Main "HOL-Library.Word"
begin

section \<open>The JNI boundary of WhisperLib.c\<close>

text \<open>
  WhisperLib.c sits between a Java host and the whisper engine. Everything it does beyond
  computing a return value is a call across one of the two boundaries (JNI, the engine)
  or a change to native memory. The model makes these explicit:
  \<^item> every call across a boundary, every log line, every \<open>calloc\<close> and \<open>free\<close> is an
    \<open>event\<close> appended to the \<open>trace\<close> of the \<open>world\<close>;
  \<^item> native memory holding \<open>struct input_stream_context\<close> values is the \<open>heap\<close>: the
    struct at address \<open>a\<close> is slot \<open>a - 1\<close>, and a freed slot holds \<open>None\<close>; addresses
    are never handed out twice, so reading through a dangling pointer is always seen;
  \<^item> what the other side answers (whether an allocation succeeds, what the stream's
    \<open>read\<close> returns, what the engine does with the loader) is a parameter of the
    function that makes the call;
  \<^item> undefined behaviour of the C program (reading a freed struct, copying past the
    end of a buffer) is a \<open>fault\<close>, returned as \<open>Inl\<close>.
  Pointers and JNI references are natural numbers with \<open>0\<close> for \<open>NULL\<close>; \<open>jint\<close>,
  \<open>jlong\<close>, \<open>size_t\<close>, \<open>jbyte\<close>, \<open>jboolean\<close> are words of their width; a \<open>jfloat\<close> is
  its 32-bit pattern; a \<open>jstring\<close> and a \<open>const char *\<close> are \<open>string option\<close>.
\<close>

type_synonym jint = "32 word"
type_synonym jlong = "64 word"
type_synonym size_t = "64 word"
type_synonym jbyte = "8 word"
type_synonym jboolean = "8 word"
type_synonym jfloat = "32 word"
type_synonym jobject = nat
type_synonym ptr = nat

datatype fault = UseAfterFree | BufferOverrun

datatype loglevel = INFO | WARN | ERROR

datatype release_mode = COPY_BACK | JNI_COMMIT | JNI_ABORT

record whisper_full_params =
  n_threads :: jint
  translate :: bool
  no_context :: bool
  print_realtime :: bool
  print_progress :: bool
  print_timestamps :: bool
  print_special :: bool
  language :: "string option"
  detect_language :: bool

datatype event =
    Log loglevel string
  | JGetEnv
  | JAttachCurrentThread
  | JCallRead jobject nat jobject jint
  | JExceptionCheck
  | JExceptionDescribe
  | JExceptionClear
  | JGetByteArrayElements jobject
  | JReleaseByteArrayElements jobject release_mode
  | JGetJavaVM
  | JNewGlobalRef jobject
  | JDeleteGlobalRef jobject
  | JGetObjectClass jobject
  | JGetMethodID jobject
  | JDeleteLocalRef jobject
  | JNewByteArray jint
  | JGetStringUTFChars string
  | JReleaseStringUTFChars string
  | JGetFloatArrayElements
  | JGetArrayLength
  | JReleaseFloatArrayElements release_mode
  | JNewStringUTF string
  | Calloc ptr
  | Free ptr
  | AssetManagerFromJava jobject
  | AssetManagerOpen ptr string
  | WhisperInitWithParams ptr
  | WhisperInitFromFile string
  | WhisperFree jlong
  | WhisperResetTimings jlong
  | WhisperFull jlong whisper_full_params "jfloat list" jint
  | WhisperPrintTimings jlong

text \<open>\<open>struct input_stream_context\<close>, field for field.\<close>

record input_stream_context =
  jvm :: ptr
  input_stream :: jobject
  mid_read :: nat
  buffer_gl :: jobject
  buf_len :: jint
  eof :: jint

record world =
  heap :: "input_stream_context option list"
  grefs :: "jobject list"
  utf_held :: "string list"
  attached :: bool
  can_attach :: bool
  pending :: bool
  trace :: "event list"

text \<open>
  \<open>grefs\<close> lists the JNI global references that are alive, \<open>utf_held\<close> the string
  buffers handed out by \<open>GetStringUTFChars\<close> and not yet released, \<open>attached\<close> says
  whether the calling thread is attached to the Java VM and \<open>can_attach\<close> whether
  \<open>AttachCurrentThread\<close> would succeed, \<open>pending\<close> whether a Java exception is pending.
\<close>

definition emit :: "event list \<Rightarrow> world \<Rightarrow> world" where
  "emit evs w = w\<lparr>trace := trace w @ evs\<rparr>"

definition load_ctx :: "world \<Rightarrow> ptr \<Rightarrow> input_stream_context option" where
  "load_ctx w p = (if p = 0 \<or> length (heap w) < p then None else heap w ! (p - 1))"

definition store_ctx :: "world \<Rightarrow> ptr \<Rightarrow> input_stream_context \<Rightarrow> world" where
  "store_ctx w p c = w\<lparr>heap := (heap w)[p - 1 := Some c]\<rparr>"

definition zero_ctx :: input_stream_context where
  "zero_ctx = \<lparr>jvm = 0, input_stream = 0, mid_read = 0, buffer_gl = 0, buf_len = 0, eof = 0\<rparr>"

text \<open>\<open>calloc(1, sizeof(*inp))\<close>: a fresh, zeroed struct at a new address.\<close>

definition calloc_ctx :: "world \<Rightarrow> world \<times> ptr" where
  "calloc_ctx w =
     (let p = Suc (length (heap w))
      in (emit [Calloc p] (w\<lparr>heap := heap w @ [Some zero_ctx]\<rparr>), p))"

definition free_ctx :: "world \<Rightarrow> ptr \<Rightarrow> world" where
  "free_ctx w p = emit [Free p] (w\<lparr>heap := (heap w)[p - 1 := None]\<rparr>)"

definition new_global_ref :: "world \<Rightarrow> jobject \<Rightarrow> world" where
  "new_global_ref w r =
     emit [JNewGlobalRef r] (if r = 0 then w else w\<lparr>grefs := r # grefs w\<rparr>)"

definition delete_global_ref :: "world \<Rightarrow> jobject \<Rightarrow> world" where
  "delete_global_ref w r = emit [JDeleteGlobalRef r] (w\<lparr>grefs := remove1 r (grefs w)\<rparr>)"

text \<open>The address of the process's Java VM, as \<open>GetJavaVM\<close> stores it.\<close>

definition java_vm :: ptr where
  "java_vm = 1"

subsection \<open>The execution-context resolver\<close>

text \<open>
  \<open>get_env_from_jvm\<close>: no VM, no environment; otherwise \<open>GetEnv\<close>, and only when the
  thread is not attached \<open>AttachCurrentThread\<close>. The result says whether a \<open>JNIEnv\<close>
  was obtained.
\<close>

definition get_env_from_jvm :: "world \<Rightarrow> ptr \<Rightarrow> world \<times> bool" where
  "get_env_from_jvm w vm =
     (if vm = 0 then (w, False)
      else if attached w then (emit [JGetEnv] w, True)
      else if can_attach w
        then (emit [JGetEnv, JAttachCurrentThread] (w\<lparr>attached := True\<rparr>), True)
      else (emit [JGetEnv, JAttachCurrentThread, Log ERROR ''AttachCurrentThread failed''] w,
            False))"

subsection \<open>The InputStream loader\<close>

text \<open>
  What one call of the stream's \<open>read(byte[], int, int)\<close> does, as seen from native
  code: the value it returns, whether it leaves an exception pending, the contents of
  the transfer array afterwards, and whether \<open>GetByteArrayElements\<close> then yields a
  pointer to them.
\<close>

record read_outcome =
  ro_n :: jint
  ro_exc :: bool
  ro_buf :: "jbyte list"
  ro_pin :: bool

text \<open>
  \<open>is_read\<close> returns the new world, the bytes it wrote to \<open>output\<close> and its return
  value. \<open>output\<close> has room for \<open>read_size\<close> bytes and the array holds \<open>ro_buf\<close>;
  a \<open>memcpy\<close> of more than either is a fault.
\<close>

definition is_read ::
  "read_outcome \<Rightarrow> world \<Rightarrow> ptr \<Rightarrow> size_t \<Rightarrow> fault + (world \<times> jbyte list \<times> size_t)" where
  "is_read ro w ctx read_size =
     (if ctx = 0 then Inr (w, [], 0)
      else case load_ctx w ctx of
        None \<Rightarrow> Inl UseAfterFree
      | Some c \<Rightarrow>
          if jvm c = 0 \<or> input_stream c = 0 \<or> buffer_gl c = 0 then Inr (w, [], 0)
          else (case get_env_from_jvm w (jvm c) of
            (w1, False) \<Rightarrow> Inr (w1, [], 0)
          | (w1, True) \<Rightarrow>
              let chunk = (if scast (buf_len c) < read_size then buf_len c else ucast read_size);
                  n = ro_n ro;
                  w2 = emit [JCallRead (input_stream c) (mid_read c) (buffer_gl c) chunk,
                             JExceptionCheck] (w1\<lparr>pending := ro_exc ro\<rparr>)
              in if ro_exc ro then
                   Inr (store_ctx
                          (emit [Log ERROR ''Exception in InputStream.read()'',
                                 JExceptionDescribe, JExceptionClear] (w2\<lparr>pending := False\<rparr>))
                          ctx (c\<lparr>eof := 1\<rparr>), [], 0)
                 else if word_sle n 0 then Inr (store_ctx w2 ctx (c\<lparr>eof := 1\<rparr>), [], 0)
                 else if \<not> ro_pin ro then
                   Inr (store_ctx
                          (emit [JGetByteArrayElements (buffer_gl c),
                                 Log ERROR ''GetByteArrayElements returned NULL''] w2)
                          ctx (c\<lparr>eof := 1\<rparr>), [], 0)
                 else if length (ro_buf ro) < unat n \<or> unat read_size < unat n
                   then Inl BufferOverrun
                 else
                   Inr (emit [JGetByteArrayElements (buffer_gl c),
                              JReleaseByteArrayElements (buffer_gl c) JNI_ABORT] w2,
                        take (unat n) (ro_buf ro), scast n)))"

definition is_eof :: "world \<Rightarrow> ptr \<Rightarrow> fault + bool" where
  "is_eof w ctx =
     (if ctx = 0 then Inr True
      else case load_ctx w ctx of
        None \<Rightarrow> Inl UseAfterFree
      | Some c \<Rightarrow> Inr (eof c \<noteq> 0))"

text \<open>
  The two guarded releases of \<open>is_close\<close>: each reference that is set is deleted and
  its field cleared.
\<close>

definition release_refs :: "world \<Rightarrow> ptr \<Rightarrow> input_stream_context \<Rightarrow> world" where
  "release_refs w1 ctx c =
     (let w2 = (if input_stream c = 0 then w1
                else store_ctx (delete_global_ref w1 (input_stream c)) ctx
                       (c\<lparr>input_stream := 0\<rparr>));
          w3 = (if buffer_gl c = 0 then w2
                else store_ctx (delete_global_ref w2 (buffer_gl c)) ctx
                       (c\<lparr>input_stream := 0, buffer_gl := 0\<rparr>))
      in w3)"

text \<open>
  \<open>is_close\<close>: nothing for a null context; otherwise the references are released when
  an environment can be had, and the struct is freed either way.
\<close>

definition is_close :: "world \<Rightarrow> ptr \<Rightarrow> fault + world" where
  "is_close w ctx =
     (if ctx = 0 then Inr w
      else case load_ctx w ctx of
        None \<Rightarrow> Inl UseAfterFree
      | Some c \<Rightarrow>
          (case get_env_from_jvm w (jvm c) of
            (w1, False) \<Rightarrow> Inr (free_ctx w1 ctx)
          | (w1, True) \<Rightarrow> Inr (free_ctx (release_refs w1 ctx c) ctx)))"

text \<open>
  The engine drives a loader through its three callbacks and then answers with a handle,
  zero for failure. What it calls, in which order and with which answers of the stream,
  is an \<open>engine_init\<close>; a callback that faults ends the run.
\<close>

datatype loader_call = CallRead size_t read_outcome | CallEof | CallClose

fun run_loader :: "loader_call list \<Rightarrow> world \<Rightarrow> ptr \<Rightarrow> fault + world" where
  "run_loader [] w ctx = Inr w"
| "run_loader (CallRead sz ro # cs) w ctx =
     (case is_read ro w ctx sz of Inl f \<Rightarrow> Inl f | Inr (w', out, k) \<Rightarrow> run_loader cs w' ctx)"
| "run_loader (CallEof # cs) w ctx =
     (case is_eof w ctx of Inl f \<Rightarrow> Inl f | Inr b \<Rightarrow> run_loader cs w ctx)"
| "run_loader (CallClose # cs) w ctx =
     (case is_close w ctx of Inl f \<Rightarrow> Inl f | Inr w' \<Rightarrow> run_loader cs w' ctx)"

record engine_init =
  ei_calls :: "loader_call list"
  ei_handle :: jlong

definition whisper_init_with_params ::
  "engine_init \<Rightarrow> world \<Rightarrow> ptr \<Rightarrow> fault + (world \<times> jlong)" where
  "whisper_init_with_params eng w ctx =
     (case run_loader (ei_calls eng) (emit [WhisperInitWithParams ctx] w) ctx of
        Inl f \<Rightarrow> Inl f
      | Inr w' \<Rightarrow> Inr (w', ei_handle eng))"

text \<open>\<open>is_close(inp); return 0;\<close>\<close>

definition close_and_fail :: "world \<Rightarrow> ptr \<Rightarrow> fault + (world \<times> jlong)" where
  "close_and_fail w inp = (case is_close w inp of Inl f \<Rightarrow> Inl f | Inr w' \<Rightarrow> Inr (w', 0))"

text \<open>
  The answers \<open>initContextFromInputStream\<close> gets: whether \<open>calloc\<close> succeeds, the
  status of \<open>GetJavaVM\<close>, the global reference to the stream, the stream's class and
  its \<open>read\<close> method, the new array and the global reference to it (each \<open>0\<close> when the
  call fails), and what the engine does.
\<close>

record stream_env =
  se_calloc_ok :: bool
  se_getjavavm :: jint
  se_stream_gl :: jobject
  se_cls :: jobject
  se_mid :: nat
  se_buffer_local :: jobject
  se_buffer_gl :: jobject
  se_engine :: engine_init

definition initContextFromInputStream ::
  "stream_env \<Rightarrow> world \<Rightarrow> jobject \<Rightarrow> fault + (world \<times> jlong)" where
  "initContextFromInputStream e w stream =
     (if stream = 0
        then Inr (emit [Log WARN ''initContextFromInputStream: null InputStream''] w, 0)
      else if \<not> se_calloc_ok e then Inr (emit [Log ERROR ''calloc failed''] w, 0)
      else
        let (w1, inp) = calloc_ctx w;
            c1 = zero_ctx\<lparr>jvm := java_vm\<rparr>;
            w2 = store_ctx (emit [JGetJavaVM] w1) inp c1
        in if se_getjavavm e \<noteq> 0
             then Inr (free_ctx (emit [Log ERROR ''GetJavaVM failed''] w2) inp, 0)
        else
          let c2 = c1\<lparr>input_stream := se_stream_gl e\<rparr>;
              w3 = store_ctx (new_global_ref w2 (se_stream_gl e)) inp c2
          in if se_stream_gl e = 0
               then Inr (free_ctx (emit [Log ERROR ''NewGlobalRef failed''] w3) inp, 0)
          else
            let mid = (if se_cls e = 0 then 0 else se_mid e);
                c3 = c2\<lparr>mid_read := mid\<rparr>;
                w4 = store_ctx
                       (emit (JGetObjectClass stream #
                                (if se_cls e = 0 then []
                                 else [JGetMethodID (se_cls e), JDeleteLocalRef (se_cls e)])) w3)
                       inp c3
            in if mid = 0
                 then close_and_fail (emit [Log ERROR ''GetMethodID(read) failed''] w4) inp
            else
              let c4 = c3\<lparr>buf_len := 64 * 1024\<rparr>;
                  w5 = emit [JNewByteArray (buf_len c4)] (store_ctx w4 inp c4)
              in if se_buffer_local e = 0
                   then close_and_fail (emit [Log ERROR ''NewByteArray failed''] w5) inp
              else
                let c5 = c4\<lparr>buffer_gl := se_buffer_gl e\<rparr>;
                    w6 = emit [JDeleteLocalRef (se_buffer_local e)]
                           (store_ctx (new_global_ref w5 (se_buffer_gl e)) inp c5)
                in if se_buffer_gl e = 0
                     then close_and_fail (emit [Log ERROR ''NewGlobalRef(buffer) failed''] w6) inp
                else
                  (case whisper_init_with_params (se_engine e) w6 inp of
                     Inl f \<Rightarrow> Inl f
                   | Inr (w7, h) \<Rightarrow>
                       if h = 0
                         then close_and_fail
                                (emit [Log ERROR ''whisper_init_with_params failed (InputStream)''] w7)
                                inp
                       else Inr (w7, h)))"

subsection \<open>The asset loader and the file-path loader\<close>

definition get_string_utf_chars :: "world \<Rightarrow> string \<Rightarrow> world" where
  "get_string_utf_chars w s = emit [JGetStringUTFChars s] (w\<lparr>utf_held := s # utf_held w\<rparr>)"

definition release_string_utf_chars :: "world \<Rightarrow> string \<Rightarrow> world" where
  "release_string_utf_chars w s =
     emit [JReleaseStringUTFChars s] (w\<lparr>utf_held := remove1 s (utf_held w)\<rparr>)"






definition freeContext :: "world \<Rightarrow> jlong \<Rightarrow> world" where
  "freeContext w context_ptr = (if context_ptr \<noteq> 0 then emit [WhisperFree context_ptr] w else w)"

subsection \<open>Transcription\<close>

text \<open>
  The parameters \<open>fullTranscribe\<close> hands to \<open>whisper_full\<close>, from the engine's
  defaults \<open>d\<close> and the string \<open>lang\<close> that \<open>GetStringUTFChars\<close> gave (\<open>None\<close> for
  \<open>NULL\<close>).
\<close>

definition transcribe_params ::
  "whisper_full_params \<Rightarrow> string option \<Rightarrow> jint \<Rightarrow> jboolean \<Rightarrow> whisper_full_params" where
  "transcribe_params d lang num_threads translate_arg =
     (let p = d\<lparr>n_threads := (if word_sless 0 num_threads then num_threads else 1),
                translate := (translate_arg = 1),
                no_context := True,
                print_realtime := False,
                print_progress := False,
                print_timestamps := False,
                print_special := False\<rparr>
      in case lang of
           None \<Rightarrow> p\<lparr>detect_language := True\<rparr>
         | Some l \<Rightarrow>
             if l \<noteq> [] \<and> l \<noteq> ''auto'' then p\<lparr>language := Some l, detect_language := False\<rparr>
             else p\<lparr>detect_language := True\<rparr>)"

text \<open>
  The answers \<open>fullTranscribe\<close> gets: the engine's default parameters, whether
  \<open>GetFloatArrayElements\<close> and \<open>GetStringUTFChars\<close> succeed, the status of
  \<open>whisper_full\<close>, and what the native copy of the samples holds when the engine
  returns. \<open>GetFloatArrayElements\<close> hands out a copy of the Java array, and the release
  mode decides whether the copy is written back.
\<close>

record transcribe_env =
  te_defaults :: whisper_full_params
  te_pcm_ok :: bool
  te_lang_ok :: bool
  te_status :: jint
  te_pcm_after :: "jfloat list"

definition release_float_array :: "jfloat list \<Rightarrow> jfloat list \<Rightarrow> release_mode \<Rightarrow> jfloat list" where
  "release_float_array java_array native_copy m = (if m = JNI_ABORT then java_array else native_copy)"

text \<open>\<open>fullTranscribe\<close> returns the new world and the caller's sample array after the call.\<close>

definition fullTranscribe ::
  "transcribe_env \<Rightarrow> world \<Rightarrow> jlong \<Rightarrow> string option \<Rightarrow> jint \<Rightarrow> jboolean \<Rightarrow>
   jfloat list option \<Rightarrow> world \<times> jfloat list option" where
  "fullTranscribe e w context_ptr lang_str num_threads translate_arg audio_data =
     (case audio_data of
        None \<Rightarrow> (emit [Log WARN ''fullTranscribe: invalid args''] w, audio_data)
      | Some a \<Rightarrow>
          if context_ptr = 0 then (emit [Log WARN ''fullTranscribe: invalid args''] w, audio_data)
          else if \<not> te_pcm_ok e then (emit [JGetFloatArrayElements] w, audio_data)
          else
            let w1 = emit [JGetFloatArrayElements, JGetArrayLength] w;
                n = (word_of_nat (length a) :: jint);
                (w2, lang) = (case lang_str of
                                None \<Rightarrow> (w1, None)
                              | Some s \<Rightarrow>
                                  if te_lang_ok e then (get_string_utf_chars w1 s, Some s)
                                  else (emit [JGetStringUTFChars s] w1, None));
                p = transcribe_params (te_defaults e) lang num_threads translate_arg;
                w3 = emit [WhisperResetTimings context_ptr, WhisperFull context_ptr p a n] w2;
                w4 = (if te_status e \<noteq> 0 then emit [Log WARN ''whisper_full failed''] w3
                      else emit [WhisperPrintTimings context_ptr] w3);
                w5 = (case lang of
                        None \<Rightarrow> w4
                      | Some l \<Rightarrow> if lang_str = None then w4 else release_string_utf_chars w4 l)
            in (emit [JReleaseFloatArrayElements JNI_ABORT] w5,
                Some (release_float_array a (te_pcm_after e) JNI_ABORT)))"

subsection \<open>Segments\<close>

text \<open>
  What the engine answers for a handle: the number of segments, and the text (a
  \<open>const char *\<close>, so possibly \<open>NULL\<close>) and the two timestamps of a segment.
\<close>

record engine_results =
  er_n_segments :: "jlong \<Rightarrow> jint"
  er_segment_text :: "jlong \<Rightarrow> jint \<Rightarrow> string option"
  er_segment_t0 :: "jlong \<Rightarrow> jint \<Rightarrow> jlong"
  er_segment_t1 :: "jlong \<Rightarrow> jint \<Rightarrow> jlong"

text \<open>
  \<open>NewStringUTF\<close>: the Java string for the characters given, or \<open>NULL\<close> when the
  string cannot be built; \<open>ok\<close> says which. \<open>getTextSegment\<close> takes that answer as a
  parameter and returns the call's result as it is.
\<close>

definition new_string_utf :: "bool \<Rightarrow> string \<Rightarrow> string option" where
  "new_string_utf ok s = (if ok then Some s else None)"

definition getTextSegmentCount :: "engine_results \<Rightarrow> jlong \<Rightarrow> jint" where
  "getTextSegmentCount r context_ptr =
     (if context_ptr \<noteq> 0 then er_n_segments r context_ptr else 0)"

definition getTextSegment :: "engine_results \<Rightarrow> bool \<Rightarrow> jlong \<Rightarrow> jint \<Rightarrow> string option" where
  "getTextSegment r ok context_ptr index =
     (if context_ptr = 0 then new_string_utf ok []
      else new_string_utf ok (case er_segment_text r context_ptr index of
                                None \<Rightarrow> []
                              | Some s \<Rightarrow> s))"

definition getTextSegmentT0 :: "engine_results \<Rightarrow> jlong \<Rightarrow> jint \<Rightarrow> jlong" where
  "getTextSegmentT0 r context_ptr index =
     (if context_ptr \<noteq> 0 then er_segment_t0 r context_ptr index else 0)"

definition getTextSegmentT1 :: "engine_results \<Rightarrow> jlong \<Rightarrow> jint \<Rightarrow> jlong" where
  "getTextSegmentT1 r context_ptr index =
     (if context_ptr \<noteq> 0 then er_segment_t1 r context_ptr index else 0)"

subsection \<open>Reading a trace\<close>

text \<open>
  The engine's initialisation calls, the parameters of its transcription calls, all its
  calls, and the global references deleted, each in the order of the trace.
\<close>

fun is_engine_init :: "event \<Rightarrow> bool" where
  "is_engine_init (WhisperInitWithParams p) = True"
| "is_engine_init (WhisperInitFromFile s) = True"
| "is_engine_init ev = False"

fun is_engine_call :: "event \<Rightarrow> bool" where
  "is_engine_call (WhisperInitWithParams p) = True"
| "is_engine_call (WhisperInitFromFile s) = True"
| "is_engine_call (WhisperFree h) = True"
| "is_engine_call (WhisperResetTimings h) = True"
| "is_engine_call (WhisperFull h p a n) = True"
| "is_engine_call (WhisperPrintTimings h) = True"
| "is_engine_call ev = False"

fun full_params_of :: "event \<Rightarrow> whisper_full_params list" where
  "full_params_of (WhisperFull h p a n) = [p]"
| "full_params_of ev = []"

fun deleted_ref :: "event \<Rightarrow> jobject list" where
  "deleted_ref (JDeleteGlobalRef r) = [r]"
| "deleted_ref ev = []"

definition engine_inits :: "world \<Rightarrow> event list" where
  "engine_inits w = filter is_engine_init (trace w)"

definition engine_calls :: "world \<Rightarrow> event list" where
  "engine_calls w = filter is_engine_call (trace w)"

definition engine_params :: "world \<Rightarrow> whisper_full_params list" where
  "engine_params w = concat (map full_params_of (trace w))"

definition deleted_refs :: "world \<Rightarrow> jobject list" where
  "deleted_refs w = concat (map deleted_ref (trace w))"

text \<open>The lengths asked of the stream's \<open>read\<close>, in the order of the trace.\<close>

fun read_request :: "event \<Rightarrow> jint list" where
  "read_request (JCallRead s m b len) = [len]"
| "read_request ev = []"

definition read_requests :: "world \<Rightarrow> jint list" where
  "read_requests w = concat (map read_request (trace w))"

text \<open>What \<open>is_read\<close> hands back to the engine: the bytes written and the count.\<close>

definition read_result ::
  "fault + (world \<times> jbyte list \<times> size_t) \<Rightarrow> (jbyte list \<times> size_t) option" where
  "read_result r = (case r of Inl f \<Rightarrow> None | Inr (w', out, k) \<Rightarrow> Some (out, k))"

text \<open>The string \<open>fullTranscribe\<close> works with once \<open>GetStringUTFChars\<close> has answered.\<close>

definition acquired_lang :: "transcribe_env \<Rightarrow> string option \<Rightarrow> string option" where
  "acquired_lang e lang_str = (if te_lang_ok e then lang_str else None)"

text \<open>The references a context holds: its stream and buffer references that are set.\<close>

definition held_refs :: "input_stream_context \<Rightarrow> jobject list" where
  "held_refs c = filter (\<lambda>r. r \<noteq> 0) [input_stream c, buffer_gl c]"

subsection \<open>Scenarios\<close>

text \<open>Two \<open>close()\<close> calls in a row on the same context.\<close>

definition close_twice :: "world \<Rightarrow> ptr \<Rightarrow> fault + world" where
  "close_twice w ctx = (case is_close w ctx of Inl f \<Rightarrow> Inl f | Inr w' \<Rightarrow> is_close w' ctx)"

text \<open>
  A world with nothing allocated, on an attached thread; a context as
  \<open>initContextFromInputStream\<close> builds it; and a world holding that context at
  address 1 with its two global references alive.
\<close>

definition world0 :: world where
  "world0 = \<lparr>heap = [], grefs = [], utf_held = [], attached = True, can_attach = True,
             pending = False, trace = []\<rparr>"

definition ctx_ready :: input_stream_context where
  "ctx_ready = \<lparr>jvm = java_vm, input_stream = 7, mid_read = 3, buffer_gl = 8,
                buf_len = 64 * 1024, eof = 0\<rparr>"

definition world1 :: world where
  "world1 = world0\<lparr>heap := [Some ctx_ready], grefs := [8, 7]\<rparr>"

text \<open>A context on which only the VM handle was set, at address 1.\<close>

definition world_half :: world where
  "world_half = world0\<lparr>heap := [Some (zero_ctx\<lparr>jvm := java_vm\<rparr>)]\<rparr>"

text \<open>
  A stream that reports end of data on its first \<open>read\<close>, and a set-up in which every
  JNI call succeeds and the engine reads once, asks for end of data, closes the loader
  and fails.
\<close>

definition read_none :: read_outcome where
  "read_none = \<lparr>ro_n = 0, ro_exc = False, ro_buf = [], ro_pin = True\<rparr>"

definition stream_env_fail :: stream_env where
  "stream_env_fail = \<lparr>se_calloc_ok = True, se_getjavavm = 0, se_stream_gl = 7, se_cls = 9,
     se_mid = 3, se_buffer_local = 10, se_buffer_gl = 8,
     se_engine = \<lparr>ei_calls = [CallRead 4096 read_none, CallEof, CallClose], ei_handle = 0\<rparr>\<rparr>"



definition params0 :: whisper_full_params where
  "params0 = \<lparr>n_threads = 4, translate = False, no_context = False, print_realtime = False,
              print_progress = True, print_timestamps = True, print_special = False,
              language = Some ''en'', detect_language = False\<rparr>"

definition transcribe_env0 :: transcribe_env where
  "transcribe_env0 = \<lparr>te_defaults = params0, te_pcm_ok = True, te_lang_ok = True,
                       te_status = 0, te_pcm_after = [1, 2]\<rparr>"

definition engine_no_text :: engine_results where
  "engine_no_text = \<lparr>er_n_segments = (\<lambda>h. 2), er_segment_text = (\<lambda>h i. None),
                      er_segment_t0 = (\<lambda>h i. 10), er_segment_t1 = (\<lambda>h i. 20)\<rparr>"

text \<open>
  Two answers of a stream into a 64 KiB array filled with sevens: five bytes reported
  but the array cannot be pinned, and three bytes reported with the array pinned. A
  transcription in which the language string cannot be obtained.
\<close>

definition read_unpinned :: read_outcome where
  "read_unpinned = \<lparr>ro_n = 5, ro_exc = False, ro_buf = replicate 65536 7, ro_pin = False\<rparr>"

definition read_three :: read_outcome where
  "read_three = \<lparr>ro_n = 3, ro_exc = False, ro_buf = replicate 65536 7, ro_pin = True\<rparr>"

definition transcribe_env_nolang :: transcribe_env where
  "transcribe_env_nolang = transcribe_env0\<lparr>te_lang_ok := False\<rparr>"

section \<open>Facts about the model\<close>

lemma load_ctx_emit [simp]: "load_ctx (emit evs w) p = load_ctx w p"
  by (simp add: load_ctx_def emit_def)

lemma load_ctx_free_ctx [simp]: "load_ctx (free_ctx w p) p = None"
  by (auto simp: load_ctx_def free_ctx_def emit_def)

lemma load_ctx_nonzero: "load_ctx w p = Some c \<Longrightarrow> p \<noteq> 0"
  by (auto simp: load_ctx_def split: if_splits)

lemma deleted_refs_free_ctx [simp]: "deleted_refs (free_ctx w p) = deleted_refs w"
  by (simp add: deleted_refs_def free_ctx_def emit_def)

lemma grefs_free_ctx [simp]: "grefs (free_ctx w p) = grefs w"
  by (simp add: free_ctx_def emit_def)

lemma get_env_deleted_refs [simp]:
  "deleted_refs (fst (get_env_from_jvm w vm)) = deleted_refs w"
  by (simp add: get_env_from_jvm_def deleted_refs_def emit_def)

lemma get_env_grefs [simp]: "grefs (fst (get_env_from_jvm w vm)) = grefs w"
  by (simp add: get_env_from_jvm_def emit_def)

lemma release_refs_deleted:
  "deleted_refs (release_refs w1 ctx c) = deleted_refs w1 @ held_refs c"
  by (simp add: release_refs_def held_refs_def deleted_refs_def delete_global_ref_def
        store_ctx_def emit_def)

lemma release_refs_grefs:
  "grefs (release_refs w1 ctx c) = fold remove1 (held_refs c) (grefs w1)"
  by (simp add: release_refs_def held_refs_def delete_global_ref_def store_ctx_def emit_def)

text \<open>\<open>is_close\<close> on a live context, in closed form; and on a freed one.\<close>

lemma is_close_live:
  assumes "load_ctx w ctx = Some c"
  shows "is_close w ctx =
           Inr (free_ctx (if snd (get_env_from_jvm w (jvm c))
                          then release_refs (fst (get_env_from_jvm w (jvm c))) ctx c
                          else fst (get_env_from_jvm w (jvm c))) ctx)"
proof -
  from assms have "ctx \<noteq> 0" by (rule load_ctx_nonzero)
  then show ?thesis using assms
    by (cases "get_env_from_jvm w (jvm c)") (auto simp: is_close_def)
qed

lemma is_close_freed: "ctx \<noteq> 0 \<Longrightarrow> load_ctx w ctx = None \<Longrightarrow> is_close w ctx = Inl UseAfterFree"
  by (simp add: is_close_def)

lemma close_twice_live: "load_ctx w ctx = Some c \<Longrightarrow> close_twice w ctx = Inl UseAfterFree"
proof -
  assume live: "load_ctx w ctx = Some c"
  then have nz: "ctx \<noteq> 0" by (rule load_ctx_nonzero)
  show ?thesis
    unfolding close_twice_def is_close_live [OF live]
    by (simp add: is_close_freed [OF nz])
qed

lemma transcribe_params_zero_one:
  "transcribe_params d lang 0 tr = transcribe_params d lang 1 tr"
  by (simp add: transcribe_params_def word_sless_alt)

lemma load_ctx_heap: "heap w' = heap w \<Longrightarrow> load_ctx w' p = load_ctx w p"
  by (simp add: load_ctx_def)

lemma load_ctx_pending [simp]: "load_ctx (w\<lparr>pending := b\<rparr>) p = load_ctx w p"
  by (simp add: load_ctx_def)

lemma load_ctx_store_ctx:
  "load_ctx w p = Some c \<Longrightarrow> load_ctx (store_ctx w p c') p = Some c'"
  by (auto simp: load_ctx_def store_ctx_def split: if_splits)

lemma pending_store_ctx [simp]: "pending (store_ctx w p c) = pending w"
  by (simp add: store_ctx_def)

lemma pending_emit [simp]: "pending (emit evs w) = pending w"
  by (simp add: emit_def)

lemma read_requests_emit:
  "read_requests (emit evs w) = read_requests w @ concat (map read_request evs)"
  by (simp add: read_requests_def emit_def)

lemma read_requests_store_ctx [simp]: "read_requests (store_ctx w p c) = read_requests w"
  by (simp add: read_requests_def store_ctx_def)

lemma read_requests_pending [simp]: "read_requests (w\<lparr>pending := b\<rparr>) = read_requests w"
  by (simp add: read_requests_def)

lemma engine_params_emit:
  "engine_params (emit evs w) = engine_params w @ concat (map full_params_of evs)"
  by (simp add: engine_params_def emit_def)

lemma engine_params_get_utf [simp]:
  "engine_params (get_string_utf_chars w s) = engine_params w"
  by (simp add: engine_params_def get_string_utf_chars_def emit_def)

lemma engine_params_release_utf [simp]:
  "engine_params (release_string_utf_chars w s) = engine_params w"
  by (simp add: engine_params_def release_string_utf_chars_def emit_def)

text \<open>
  A \<open>jint\<close> that is not negative reads the same signed and unsigned, and keeps its
  value when widened to \<open>size_t\<close>; the clamp of \<open>is_read\<close> on a 64 KiB buffer is the
  minimum of the request and 65536.
\<close>

lemma sint_pos_eq_uint:
  fixes n :: jint
  assumes "0 \<le> sint n"
  shows "uint n = sint n"
proof -
  have "sint n < 2 ^ 32" using sint_lt [of n] by simp
  with assms show ?thesis by (simp add: uint_sint take_bit_int_eq_self)
qed

lemma unat_scast_pos:
  fixes n :: jint
  assumes "0 \<le> sint n"
  shows "unat (scast n :: size_t) = unat n"
proof -
  have "(scast n :: size_t) = word_of_int (sint n)" by (rule scast_eq)
  also have "\<dots> = word_of_int (uint n)" by (simp only: sint_pos_eq_uint [OF assms])
  also have "\<dots> = ucast n" by (rule ucast_eq [symmetric])
  finally have "uint (scast n :: size_t) = uint (ucast n :: size_t)" by simp
  also have "\<dots> = uint n" by (rule uint_up_ucast) (simp add: is_up)
  finally show ?thesis by (simp only: unat_eq_nat_uint)
qed

lemma chunk_eq:
  fixes read_size :: size_t
  shows "(if scast (64 * 1024 :: jint) < read_size then (64 * 1024 :: jint) else ucast read_size) =
         word_of_nat (min (unat read_size) 65536)"
  by (auto simp: word_less_nat_alt min_def not_less)

lemma get_env_resolves:
  assumes "vm \<noteq> 0" "attached w \<or> can_attach w"
  shows "\<exists>w1. get_env_from_jvm w vm = (w1, True) \<and> heap w1 = heap w \<and>
              read_requests w1 = read_requests w"
  using assms
  by (auto simp: get_env_from_jvm_def emit_def read_requests_def)

text \<open>
  \<open>is_read\<close> on a context that is ready (live, its three handles set, 64 KiB of
  buffer) on a thread that has or can get an environment: the stream is asked once, for
  the clamped length, and the result is decided by the stream's answer alone.
\<close>

lemma is_read_ready:
  assumes live: "load_ctx w ctx = Some c"
    and refs: "jvm c \<noteq> 0" "input_stream c \<noteq> 0" "buffer_gl c \<noteq> 0"
    and cap: "buf_len c = 64 * 1024"
    and env: "attached w \<or> can_attach w"
  shows "\<exists>w2. load_ctx w2 ctx = Some c \<and>
           read_requests w2 = read_requests w @ [word_of_nat (min (unat read_size) 65536)] \<and>
           is_read ro w ctx read_size =
             (if ro_exc ro then
                Inr (store_ctx
                       (emit [Log ERROR ''Exception in InputStream.read()'',
                              JExceptionDescribe, JExceptionClear] (w2\<lparr>pending := False\<rparr>))
                       ctx (c\<lparr>eof := 1\<rparr>), [], 0)
              else if word_sle (ro_n ro) 0 then Inr (store_ctx w2 ctx (c\<lparr>eof := 1\<rparr>), [], 0)
              else if \<not> ro_pin ro then
                Inr (store_ctx
                       (emit [JGetByteArrayElements (buffer_gl c),
                              Log ERROR ''GetByteArrayElements returned NULL''] w2)
                       ctx (c\<lparr>eof := 1\<rparr>), [], 0)
              else if length (ro_buf ro) < unat (ro_n ro) \<or> unat read_size < unat (ro_n ro)
                then Inl BufferOverrun
              else
                Inr (emit [JGetByteArrayElements (buffer_gl c),
                           JReleaseByteArrayElements (buffer_gl c) JNI_ABORT] w2,
                     take (unat (ro_n ro)) (ro_buf ro), scast (ro_n ro)))"
proof -
  from get_env_resolves [OF refs(1) env] obtain w1
    where g: "get_env_from_jvm w (jvm c) = (w1, True)"
      and h1: "heap w1 = heap w"
      and r1: "read_requests w1 = read_requests w"
    by blast
  have nz: "ctx \<noteq> 0" using live by (rule load_ctx_nonzero)
  define chunk :: jint where "chunk = word_of_nat (min (unat read_size) 65536)"
  have ch: "(if scast (buf_len c) < read_size then buf_len c else ucast read_size) = chunk"
    unfolding cap chunk_def by (rule chunk_eq)
  define w2 where "w2 = emit [JCallRead (input_stream c) (mid_read c) (buffer_gl c) chunk,
                             JExceptionCheck] (w1\<lparr>pending := ro_exc ro\<rparr>)"
  have l2: "load_ctx w2 ctx = Some c"
    using live load_ctx_heap [OF h1, of ctx] by (simp add: w2_def)
  have r2: "read_requests w2 = read_requests w @ [chunk]"
    using r1 by (simp add: w2_def read_requests_emit)
  have "is_read ro w ctx read_size =
      (if ro_exc ro then
         Inr (store_ctx
                (emit [Log ERROR ''Exception in InputStream.read()'',
                       JExceptionDescribe, JExceptionClear] (w2\<lparr>pending := False\<rparr>))
                ctx (c\<lparr>eof := 1\<rparr>), [], 0)
       else if word_sle (ro_n ro) 0 then Inr (store_ctx w2 ctx (c\<lparr>eof := 1\<rparr>), [], 0)
       else if \<not> ro_pin ro then
         Inr (store_ctx
                (emit [JGetByteArrayElements (buffer_gl c),
                       Log ERROR ''GetByteArrayElements returned NULL''] w2)
                ctx (c\<lparr>eof := 1\<rparr>), [], 0)
       else if length (ro_buf ro) < unat (ro_n ro) \<or> unat read_size < unat (ro_n ro)
         then Inl BufferOverrun
       else
         Inr (emit [JGetByteArrayElements (buffer_gl c),
                    JReleaseByteArrayElements (buffer_gl c) JNI_ABORT] w2,
              take (unat (ro_n ro)) (ro_buf ro), scast (ro_n ro)))"
    using nz refs by (simp add: is_read_def live g ch Let_def w2_def)
  with l2 r2 show ?thesis unfolding chunk_def by blast
qed

lemma world1_ready:
  "load_ctx world1 1 = Some ctx_ready" "jvm ctx_ready \<noteq> 0" "input_stream ctx_ready \<noteq> 0"
  "buffer_gl ctx_ready \<noteq> 0" "buf_len ctx_ready = 64 * 1024" "attached world1 \<or> can_attach world1"
  by (simp_all add: load_ctx_def world1_def world0_def ctx_ready_def java_vm_def)

text \<open>The parameters the engine gets from a call that reaches it.\<close>

lemma fullTranscribe_engine_params:
  assumes "context_ptr \<noteq> 0" "te_pcm_ok e"
  shows "engine_params (fst (fullTranscribe e w context_ptr lang_str num_threads tr (Some a))) =
         engine_params w @
           [transcribe_params (te_defaults e) (acquired_lang e lang_str) num_threads tr]"
  using assms
  by (cases lang_str)
     (simp_all add: fullTranscribe_def Let_def acquired_lang_def engine_params_emit)

lemma transcribe_params_detect:
  "detect_language (transcribe_params d lang nt tr) =
     (lang = None \<or> lang = Some [] \<or> lang = Some ''auto'')"
  by (auto simp: transcribe_params_def Let_def split: option.splits)

lemma transcribe_params_language:
  "s \<noteq> [] \<Longrightarrow> s \<noteq> ''auto'' \<Longrightarrow> language (transcribe_params d (Some s) nt tr) = Some s"
  by (simp add: transcribe_params_def Let_def)

text \<open>
  \<open>initContextFromInputStream\<close> where a set-up step fails, and where the engine fails
  without having touched the loader: zero is returned, the global references alive
  afterwards are those alive before, the struct, if one was allocated, is freed, and
  the engine was not initialised or, in the second case, both references were deleted.
\<close>

lemma stream_setup_failure_clean:
  assumes att: "attached w"
    and fail: "\<not> se_calloc_ok e \<or> se_getjavavm e \<noteq> 0 \<or> se_stream_gl e = 0 \<or> se_cls e = 0 \<or>
               se_mid e = 0 \<or> se_buffer_local e = 0 \<or> se_buffer_gl e = 0"
  shows "\<exists>w'. initContextFromInputStream e w stream = Inr (w', 0) \<and> grefs w' = grefs w \<and>
              (heap w' = heap w \<or> heap w' = heap w @ [None]) \<and>
              engine_inits w' = engine_inits w"
proof (cases "stream = 0 \<or> \<not> se_calloc_ok e \<or> se_getjavavm e \<noteq> 0 \<or> se_stream_gl e = 0")
  case True
  then show ?thesis
    by (auto simp: initContextFromInputStream_def calloc_ctx_def Let_def emit_def free_ctx_def
          store_ctx_def new_global_ref_def engine_inits_def)
next
  case False
  then have ok: "stream \<noteq> 0" "se_calloc_ok e" "se_getjavavm e = 0" "se_stream_gl e \<noteq> 0"
    by auto
  from fail ok have rest:
    "se_cls e = 0 \<or> se_mid e = 0 \<or> se_buffer_local e = 0 \<or> se_buffer_gl e = 0"
    by auto
  show ?thesis
    using ok rest att
    by (auto simp: initContextFromInputStream_def calloc_ctx_def Let_def emit_def free_ctx_def
          store_ctx_def new_global_ref_def engine_inits_def close_and_fail_def is_close_def
          load_ctx_def zero_ctx_def java_vm_def get_env_from_jvm_def release_refs_def
          delete_global_ref_def)
qed

lemma stream_engine_failure_loader_untouched:
  assumes att: "attached w"
    and ok: "stream \<noteq> 0" "se_calloc_ok e" "se_getjavavm e = 0" "se_stream_gl e \<noteq> 0"
      "se_cls e \<noteq> 0" "se_mid e \<noteq> 0" "se_buffer_local e \<noteq> 0" "se_buffer_gl e \<noteq> 0"
    and eng: "ei_calls (se_engine e) = []" "ei_handle (se_engine e) = 0"
  shows "\<exists>w'. initContextFromInputStream e w stream = Inr (w', 0) \<and> grefs w' = grefs w \<and>
              heap w' = heap w @ [None] \<and>
              deleted_refs w' = deleted_refs w @ [se_stream_gl e, se_buffer_gl e]"
  using att ok eng
  by (auto simp: initContextFromInputStream_def calloc_ctx_def Let_def emit_def free_ctx_def
        store_ctx_def new_global_ref_def deleted_refs_def close_and_fail_def is_close_def
        load_ctx_def zero_ctx_def java_vm_def get_env_from_jvm_def release_refs_def
        delete_global_ref_def whisper_init_with_params_def)

section \<open>The three loaders on missing inputs\<close>




section \<open>Closing a stream context\<close>

text \<open>
  C2, as stated, fails: \<open>is_close\<close> ends with \<open>free(is)\<close>, so a second call on the
  same context reads a freed struct.
\<close>

theorem close_twice_faults: "close_twice world1 1 = Inl UseAfterFree"
proof -
  have "load_ctx world1 1 = Some ctx_ready"
    by (simp add: load_ctx_def world1_def world0_def)
  then show ?thesis by (rule close_twice_live)
qed

text \<open>
  C2, as amended. One \<open>close()\<close> on a live context, whichever of its fields are set,
  does not fault and frees the struct; when an environment can be resolved it deletes
  each reference the context holds once, the stream's first, and nothing else; when none
  can be resolved it deletes nothing. \<open>close()\<close> on a null context does nothing.
\<close>

theorem is_close_once:
  assumes "load_ctx w ctx = Some c"
  shows "(\<exists>w'. is_close w ctx = Inr w' \<and> load_ctx w' ctx = None \<and>
           deleted_refs w' = deleted_refs w @
             (if snd (get_env_from_jvm w (jvm c)) then held_refs c else []) \<and>
           grefs w' =
             (if snd (get_env_from_jvm w (jvm c)) then fold remove1 (held_refs c) (grefs w)
              else grefs w)) \<and>
         is_close w 0 = Inr w"
  unfolding is_close_live [OF assms]
  by (simp add: release_refs_deleted release_refs_grefs is_close_def)

theorem is_close_once_witness:
  "load_ctx world1 1 = Some ctx_ready \<and>
   (\<exists>w'. is_close world1 1 = Inr w' \<and> load_ctx w' 1 = None \<and>
      deleted_refs w' = [7, 8] \<and> grefs w' = [])"
proof -
  have live: "load_ctx world1 1 = Some ctx_ready"
    by (simp add: load_ctx_def world1_def world0_def)
  have env: "snd (get_env_from_jvm world1 (jvm ctx_ready))"
    by (simp add: get_env_from_jvm_def world1_def world0_def ctx_ready_def java_vm_def)
  have held: "held_refs ctx_ready = [7, 8]"
    by (simp add: held_refs_def ctx_ready_def)
  have d0: "deleted_refs world1 = []" "grefs world1 = [8, 7]"
    by (simp_all add: deleted_refs_def world1_def world0_def)
  from is_close_once [OF live] live show ?thesis
    by (simp add: env held d0)
qed

section \<open>Reading from the stream\<close>

text \<open>
  C3, as stated, fails: between a positive count and the copy, \<open>is_read\<close> asks for the
  array's elements, and when that yields \<open>NULL\<close> it marks the source exhausted and
  returns zero, though the stream reported five bytes and raised nothing.
\<close>

theorem unpinned_buffer_reads_nothing:
  "read_result (is_read read_unpinned world1 1 4096) = Some ([], 0)"
proof -
  from is_read_ready [OF world1_ready, of 4096 read_unpinned] obtain w2
    where "is_read read_unpinned world1 1 4096 =
             Inr (store_ctx
                    (emit [JGetByteArrayElements (buffer_gl ctx_ready),
                           Log ERROR ''GetByteArrayElements returned NULL''] w2)
                    1 (ctx_ready\<lparr>eof := 1\<rparr>), [], 0)"
    by (auto simp: read_unpinned_def word_sle_eq)
  then show ?thesis by (simp add: read_result_def)
qed

text \<open>
  C3, as amended. On a live context with its VM handle, stream reference and buffer
  reference set and the 64 KiB capacity, on a thread that has or can get an
  environment, with a stream that reports no more than it was asked for: \<open>is_read\<close>
  asks the stream for the request clamped to 65536 bytes; if the stream's \<open>read\<close>
  raises, the exception is cleared, the source is marked exhausted and zero is
  returned; if it reports zero or less, or the array's elements cannot be obtained, the
  source is marked exhausted and zero is returned; otherwise exactly the reported count
  of bytes, taken from the start of the array, is written to the output, that count is
  returned, and the end-of-data flag is left as it was.
\<close>

theorem is_read_outcomes:
  assumes live: "load_ctx w ctx = Some c"
    and refs: "jvm c \<noteq> 0" "input_stream c \<noteq> 0" "buffer_gl c \<noteq> 0"
    and cap: "buf_len c = 64 * 1024"
    and env: "attached w \<or> can_attach w"
    and fits: "sint (ro_n ro) \<le> int (min (unat read_size) 65536)"
    and arr: "length (ro_buf ro) = 65536"
  shows "\<exists>w' out k. is_read ro w ctx read_size = Inr (w', out, k) \<and>
           read_requests w' = read_requests w @ [word_of_nat (min (unat read_size) 65536)] \<and>
           (if ro_exc ro
              then out = [] \<and> k = 0 \<and> load_ctx w' ctx = Some (c\<lparr>eof := 1\<rparr>) \<and> \<not> pending w'
            else if word_sle (ro_n ro) 0 \<or> \<not> ro_pin ro
              then out = [] \<and> k = 0 \<and> load_ctx w' ctx = Some (c\<lparr>eof := 1\<rparr>)
            else out = take (unat (ro_n ro)) (ro_buf ro) \<and> length out = unat (ro_n ro) \<and>
                 unat k = unat (ro_n ro) \<and> load_ctx w' ctx = Some c)"
proof -
  from is_read_ready [OF live refs cap env, of read_size ro] obtain w2
    where l2: "load_ctx w2 ctx = Some c"
      and r2: "read_requests w2 = read_requests w @ [word_of_nat (min (unat read_size) 65536)]"
      and unfold: "is_read ro w ctx read_size =
             (if ro_exc ro then
                Inr (store_ctx
                       (emit [Log ERROR ''Exception in InputStream.read()'',
                              JExceptionDescribe, JExceptionClear] (w2\<lparr>pending := False\<rparr>))
                       ctx (c\<lparr>eof := 1\<rparr>), [], 0)
              else if word_sle (ro_n ro) 0 then Inr (store_ctx w2 ctx (c\<lparr>eof := 1\<rparr>), [], 0)
              else if \<not> ro_pin ro then
                Inr (store_ctx
                       (emit [JGetByteArrayElements (buffer_gl c),
                              Log ERROR ''GetByteArrayElements returned NULL''] w2)
                       ctx (c\<lparr>eof := 1\<rparr>), [], 0)
              else if length (ro_buf ro) < unat (ro_n ro) \<or> unat read_size < unat (ro_n ro)
                then Inl BufferOverrun
              else
                Inr (emit [JGetByteArrayElements (buffer_gl c),
                           JReleaseByteArrayElements (buffer_gl c) JNI_ABORT] w2,
                     take (unat (ro_n ro)) (ro_buf ro), scast (ro_n ro)))"
    by blast
  show ?thesis
  proof (cases "ro_exc ro")
    case True
    have "load_ctx (w2\<lparr>pending := False\<rparr>) ctx = Some c"
      using l2 by simp
    then show ?thesis using True r2
      by (simp add: unfold load_ctx_store_ctx read_requests_emit)
  next
    case noexc: False
    show ?thesis
    proof (cases "word_sle (ro_n ro) 0")
      case True
      then show ?thesis using noexc r2 l2
        by (simp add: unfold load_ctx_store_ctx)
    next
      case pos: False
      show ?thesis
      proof (cases "ro_pin ro")
        case False
        then show ?thesis using noexc pos r2 l2
          by (simp add: unfold load_ctx_store_ctx read_requests_emit)
      next
        case True
        from pos have sp: "0 \<le> sint (ro_n ro)" by (simp add: word_sle_eq)
        have "nat (uint (ro_n ro)) = nat (sint (ro_n ro))"
          by (simp only: sint_pos_eq_uint [OF sp])
        then have un: "unat (ro_n ro) = nat (sint (ro_n ro))"
          by (simp only: unat_eq_nat_uint)
        from fits have "nat (sint (ro_n ro)) \<le> min (unat read_size) 65536"
          by (simp only: nat_le_iff)
        then have b1: "unat (ro_n ro) \<le> unat read_size" and b2: "unat (ro_n ro) \<le> 65536"
          by (simp_all add: un)
        have "\<not> (length (ro_buf ro) < unat (ro_n ro) \<or> unat read_size < unat (ro_n ro))"
          using b1 b2 arr by simp
        then show ?thesis using True noexc pos r2 l2 b2 arr
          by (simp add: unfold read_requests_emit unat_scast_pos [OF sp])
      qed
    qed
  qed
qed

theorem is_read_outcomes_witness:
  "load_ctx world1 1 = Some ctx_ready \<and> length (ro_buf read_three) = 65536 \<and>
   (\<exists>w' out k. is_read read_three world1 1 4096 = Inr (w', out, k) \<and>
      read_requests w' = [4096] \<and> out = [7, 7, 7] \<and> unat k = 3 \<and>
      load_ctx w' 1 = Some ctx_ready)"
proof -
  have fits: "sint (ro_n read_three) \<le> int (min (unat (4096 :: size_t)) 65536)"
    by (simp add: read_three_def)
  have arr: "length (ro_buf read_three) = 65536" by (simp add: read_three_def)
  have r0: "read_requests world1 = []" by (simp add: read_requests_def world1_def world0_def)
  have c: "\<not> ro_exc read_three" "\<not> word_sle (ro_n read_three) 0" "ro_pin read_three"
    "unat (ro_n read_three) = 3"
    by (simp_all add: read_three_def word_sle_eq)
  have "take 3 (ro_buf read_three) = replicate 3 7" by (simp add: read_three_def)
  also have "\<dots> = [7, 7, 7]" by (simp add: numeral_3_eq_3)
  finally have t: "take 3 (ro_buf read_three) = [7, 7, 7]" .
  from is_read_outcomes [OF world1_ready fits arr] world1_ready(1) arr r0 c t
  show ?thesis by simp
qed

section \<open>Failure of the stream loader\<close>

text \<open>
  C4. The stream reports end of data on the first read; the engine asks whether the
  source is exhausted, closes the loader as the loader contract has it do on success
  and on failure alike, and fails. \<open>initContextFromInputStream\<close> then calls
  \<open>is_close\<close> on the struct that the engine's \<open>close()\<close> has freed: it does not
  return a zero handle, it reads freed memory.
\<close>

theorem engine_failure_double_close:
  "initContextFromInputStream stream_env_fail world0 5 = Inl UseAfterFree"
  by (simp add: initContextFromInputStream_def stream_env_fail_def world0_def calloc_ctx_def
        zero_ctx_def java_vm_def store_ctx_def emit_def new_global_ref_def
        whisper_init_with_params_def is_read_def is_eof_def is_close_def release_refs_def
        load_ctx_def get_env_from_jvm_def read_none_def delete_global_ref_def free_ctx_def
        close_and_fail_def Let_def)

section \<open>Transcription\<close>

text \<open>
  C5, as stated, fails: when the characters of the language string cannot be obtained
  (\<open>GetStringUTFChars\<close> returns \<open>NULL\<close>), the language \<open>en\<close> is not passed on and
  auto-detect is enabled.
\<close>

theorem language_unavailable_autodetects:
  "map detect_language
     (engine_params
        (fst (fullTranscribe transcribe_env_nolang world0 9 (Some ''en'') 4 0 (Some [0, 0]))))
   = [True]"
proof -
  have a: "(9 :: jlong) \<noteq> 0" "te_pcm_ok transcribe_env_nolang"
    by (simp_all add: transcribe_env_nolang_def transcribe_env0_def)
  have b: "engine_params world0 = []" by (simp add: engine_params_def world0_def)
  show ?thesis
    unfolding fullTranscribe_engine_params [OF a] b
    by (simp add: transcribe_params_detect acquired_lang_def transcribe_env_nolang_def)
qed

text \<open>
  C5, as amended. A call that reaches the engine (handle not zero, samples obtained)
  makes one transcription call, and in its parameters: auto-detect is enabled if the
  language argument is absent, empty or \<open>auto\<close>, or if its characters cannot be
  obtained; for any other non-empty language string whose characters are obtained,
  auto-detect is disabled and the language parameter is that string.
\<close>

theorem transcribe_language_choice:
  assumes "context_ptr \<noteq> 0" "te_pcm_ok e"
  shows "\<exists>p. engine_params (fst (fullTranscribe e w context_ptr lang_str num_threads tr (Some a))) =
               engine_params w @ [p] \<and>
             (lang_str = None \<or> lang_str = Some [] \<or> lang_str = Some ''auto'' \<or> \<not> te_lang_ok e
                \<longrightarrow> detect_language p) \<and>
             (\<forall>s. lang_str = Some s \<and> s \<noteq> [] \<and> s \<noteq> ''auto'' \<and> te_lang_ok e
                \<longrightarrow> \<not> detect_language p \<and> language p = Some s)"
  unfolding fullTranscribe_engine_params [OF assms]
  by (auto simp: transcribe_params_detect transcribe_params_language acquired_lang_def)

theorem transcribe_language_choice_witness:
  "(9 :: jlong) \<noteq> 0 \<and> te_pcm_ok transcribe_env0 \<and> te_lang_ok transcribe_env0 \<and>
   (\<exists>p. engine_params (fst (fullTranscribe transcribe_env0 world0 9 (Some ''en'') 4 0 (Some [0, 0])))
           = [p] \<and> \<not> detect_language p \<and> language p = Some ''en'')"
proof -
  have a: "(9 :: jlong) \<noteq> 0" "te_pcm_ok transcribe_env0"
    by (simp_all add: transcribe_env0_def)
  have c: "te_lang_ok transcribe_env0" by (simp add: transcribe_env0_def)
  have b: "engine_params world0 = []" by (simp add: engine_params_def world0_def)
  from transcribe_language_choice [OF a, of world0 "Some ''en''" 4 0 "[0, 0]"] a b c
  show ?thesis by auto
qed


text \<open>
  C6. A call that reaches the engine (handle not zero, samples obtained) makes one
  transcription call, and the thread count in the parameters \<open>whisper_full\<close> is handed
  is 1 when the thread count argument is below 1 and the argument itself otherwise. A
  call with thread count 0 is the same call as one with thread count 1: the same world,
  the same trace (so the same parameters handed to the engine) and the same sample array.
\<close>

theorem transcribe_thread_count_floor:
  "(context_ptr \<noteq> 0 \<and> te_pcm_ok e \<longrightarrow>
      (\<exists>p. engine_params (fst (fullTranscribe e w context_ptr lang_str num_threads tr (Some a))) =
               engine_params w @ [p] \<and>
           (word_sless num_threads 1 \<longrightarrow> n_threads p = 1) \<and>
           (\<not> word_sless num_threads 1 \<longrightarrow> n_threads p = num_threads))) \<and>
   fullTranscribe e w context_ptr lang_str 0 tr audio_data =
   fullTranscribe e w context_ptr lang_str 1 tr audio_data"
proof
  have n: "n_threads (transcribe_params d lang num_threads tr) =
             (if word_sless num_threads 1 then 1 else num_threads)" for d lang
    by (auto simp: transcribe_params_def Let_def word_sless_alt split: option.splits)
  show "context_ptr \<noteq> 0 \<and> te_pcm_ok e \<longrightarrow>
      (\<exists>p. engine_params (fst (fullTranscribe e w context_ptr lang_str num_threads tr (Some a))) =
               engine_params w @ [p] \<and>
           (word_sless num_threads 1 \<longrightarrow> n_threads p = 1) \<and>
           (\<not> word_sless num_threads 1 \<longrightarrow> n_threads p = num_threads))"
  proof
    assume "context_ptr \<noteq> 0 \<and> te_pcm_ok e"
    then have reach: "context_ptr \<noteq> 0" "te_pcm_ok e" by simp_all
    show "\<exists>p. engine_params (fst (fullTranscribe e w context_ptr lang_str num_threads tr (Some a))) =
               engine_params w @ [p] \<and>
           (word_sless num_threads 1 \<longrightarrow> n_threads p = 1) \<and>
           (\<not> word_sless num_threads 1 \<longrightarrow> n_threads p = num_threads)"
      unfolding fullTranscribe_engine_params [OF reach]
      by (simp add: n)
  qed
  show "fullTranscribe e w context_ptr lang_str 0 tr audio_data =
        fullTranscribe e w context_ptr lang_str 1 tr audio_data"
    by (simp only: fullTranscribe_def transcribe_params_zero_one)
qed

theorem transcribe_thread_count_floor_witness:
  "(9 :: jlong) \<noteq> 0 \<and> te_pcm_ok transcribe_env0 \<and> word_sless (- 3 :: jint) 1 \<and>
   (\<exists>p. engine_params
           (fst (fullTranscribe transcribe_env0 world0 9 (Some ''en'') (- 3) 0 (Some [0, 0]))) = [p] \<and>
        n_threads p = 1) \<and>
   fullTranscribe transcribe_env0 world0 9 (Some ''en'') 0 0 (Some [0, 0]) =
   fullTranscribe transcribe_env0 world0 9 (Some ''en'') 1 0 (Some [0, 0])"
proof -
  have reach: "(9 :: jlong) \<noteq> 0" "te_pcm_ok transcribe_env0"
    by (simp_all add: transcribe_env0_def)
  have neg: "word_sless (- 3 :: jint) 1" by (simp add: word_sless_alt)
  have b: "engine_params world0 = []" by (simp add: engine_params_def world0_def)
  from transcribe_thread_count_floor
         [where num_threads = "- 3" and tr = 0 and a = "[0, 0]"
            and e = transcribe_env0 and w = world0 and context_ptr = 9
            and lang_str = "Some ''en''" and audio_data = "Some [0, 0]"]
       reach neg b
  show ?thesis by auto
qed

text \<open>
  C7. With a zero handle or a null sample array, \<open>fullTranscribe\<close> logs one warning
  and returns: the world is the old one with that log line appended, the engine is not
  called, and the sample array is as it was. No path of the function faults.
\<close>

theorem transcribe_invalid_args_noop:
  assumes "context_ptr = 0 \<or> audio_data = None"
  shows "fullTranscribe e w context_ptr lang_str num_threads tr audio_data =
           (emit [Log WARN ''fullTranscribe: invalid args''] w, audio_data) \<and>
         engine_calls (fst (fullTranscribe e w context_ptr lang_str num_threads tr audio_data)) =
           engine_calls w"
  using assms
  by (auto simp: fullTranscribe_def engine_calls_def emit_def split: option.splits)

theorem transcribe_invalid_args_noop_witness:
  "fullTranscribe transcribe_env0 world0 0 (Some ''en'') 4 0 (Some [0, 0]) =
     (emit [Log WARN ''fullTranscribe: invalid args''] world0, Some [0, 0]) \<and>
   engine_calls (fst (fullTranscribe transcribe_env0 world0 0 (Some ''en'') 4 0 (Some [0, 0]))) = []"
proof -
  have arg: "(0 :: jlong) = 0 \<or> Some [0, 0 :: jfloat] = None" by simp
  have none: "engine_calls world0 = []" by (simp add: engine_calls_def world0_def)
  note r = transcribe_invalid_args_noop [OF arg, of transcribe_env0 world0 "Some ''en''" 4 0]
  show ?thesis
    by (intro conjI, rule r [THEN conjunct1], simp only: r [THEN conjunct2] none)
qed

text \<open>
  C8. On every path through \<open>fullTranscribe\<close> (the two early returns, a failed or
  successful string acquisition, a failed or successful engine run) the string buffers
  held afterwards are those held before, so a language string that was acquired has
  been released; and the caller's sample array is unchanged, whatever the engine left
  in the native copy, because the copy is released with \<open>JNI_ABORT\<close>.
\<close>

theorem transcribe_releases_language_keeps_samples:
  "utf_held (fst (fullTranscribe e w context_ptr lang_str num_threads tr audio_data)) = utf_held w \<and>
   snd (fullTranscribe e w context_ptr lang_str num_threads tr audio_data) = audio_data"
  by (auto simp: fullTranscribe_def Let_def emit_def get_string_utf_chars_def
        release_string_utf_chars_def release_float_array_def split: option.splits)

theorem transcribe_releases_language_keeps_samples_witness:
  "utf_held (fst (fullTranscribe transcribe_env0 world0 9 (Some ''en'') 4 0 (Some [0, 0]))) = [] \<and>
   snd (fullTranscribe transcribe_env0 world0 9 (Some ''en'') 4 0 (Some [0, 0])) = Some [0, 0]"
proof -
  have none: "utf_held world0 = []" by (simp add: world0_def)
  from transcribe_releases_language_keeps_samples
          [of transcribe_env0 world0 9 "Some ''en''" 4 0 "Some [0, 0]"] none
  show ?thesis by simp
qed

section \<open>Segment accessors\<close>

text \<open>
  C9, as stated, fails: \<open>getTextSegment\<close> returns the result of \<open>NewStringUTF\<close>
  untested, so when the string cannot be built the caller gets a null reference, here
  for a zero handle.
\<close>

theorem segment_text_null_when_string_fails:
  "getTextSegment engine_no_text False 0 5 = None"
  by (simp add: getTextSegment_def new_string_utf_def)

text \<open>
  C9, as amended. With a zero handle the segment count and both timestamps are zero.
  \<open>getTextSegment\<close> never asks for a string from a null text: with a zero handle, or
  when the engine has no text, it asks for the empty string, and otherwise for the
  engine's text. It returns what \<open>NewStringUTF\<close> returns: that string when it can be
  built, and a null reference exactly when it cannot.
\<close>

theorem segment_accessors_null_handle:
  "getTextSegmentCount r 0 = 0 \<and> getTextSegmentT0 r 0 i = 0 \<and> getTextSegmentT1 r 0 i = 0 \<and>
   getTextSegment r ok 0 i = (if ok then Some [] else None) \<and>
   (er_segment_text r h i = None \<longrightarrow> getTextSegment r ok h i = (if ok then Some [] else None)) \<and>
   (h \<noteq> 0 \<and> er_segment_text r h i = Some s \<longrightarrow>
      getTextSegment r ok h i = (if ok then Some s else None)) \<and>
   (getTextSegment r ok h i = None) = (\<not> ok)"
  by (auto simp: getTextSegmentCount_def getTextSegmentT0_def getTextSegmentT1_def
        getTextSegment_def new_string_utf_def split: option.splits)

theorem segment_accessors_null_handle_witness:
  "er_segment_text engine_no_text 9 5 = None \<and>
   getTextSegmentCount engine_no_text 0 = 0 \<and> getTextSegmentT0 engine_no_text 0 5 = 0 \<and>
   getTextSegmentT1 engine_no_text 0 5 = 0 \<and>
   getTextSegment engine_no_text True 0 5 = Some [] \<and>
   getTextSegment engine_no_text True 9 5 = Some []"
proof -
  have none: "er_segment_text engine_no_text 9 5 = None" by (simp add: engine_no_text_def)
  from segment_accessors_null_handle
         [where r = engine_no_text and i = 5 and h = 9 and ok = True] none
  show ?thesis by simp
qed

section \<open>The loader callbacks on a null or half-built context\<close>

text \<open>
  C10. \<open>is_read\<close> on a null context, or on a live context whose VM handle, stream
  reference or buffer reference is null, returns zero, writes nothing and leaves the
  world as it was: no event, so no call across the boundary. \<open>is_eof\<close> on a null
  context answers true.
\<close>

theorem is_read_is_eof_null_total:
  assumes "ctx = 0 \<or> (\<exists>c. load_ctx w ctx = Some c \<and>
             (jvm c = 0 \<or> input_stream c = 0 \<or> buffer_gl c = 0))"
  shows "is_read ro w ctx read_size = Inr (w, [], 0) \<and> is_eof w 0 = Inr True"
  using assms by (auto simp: is_read_def is_eof_def)

theorem is_read_is_eof_null_total_witness:
  "load_ctx world_half 1 = Some (zero_ctx\<lparr>jvm := java_vm\<rparr>) \<and>
   is_read read_none world_half 1 4096 = Inr (world_half, [], 0) \<and>
   is_eof world_half 0 = Inr True"
proof -
  have live: "load_ctx world_half 1 = Some (zero_ctx\<lparr>jvm := java_vm\<rparr>)"
    by (simp add: load_ctx_def world_half_def world0_def)
  have "1 = (0::nat) \<or> (\<exists>c. load_ctx world_half 1 = Some c \<and>
          (jvm c = 0 \<or> input_stream c = 0 \<or> buffer_gl c = 0))"
    using live by (simp add: zero_ctx_def)
  from is_read_is_eof_null_total [OF this, of read_none 4096] live show ?thesis by simp
qed

end
